theory Spec2Isabelle
  imports Complex_Main
begin

section \<open>Values, strings and numbers\<close>

text \<open>
  The dashboard is one Python script, \<^verbatim>\<open>src/streamlit.py\<close>. It talks to a REST backend with
  the \<^verbatim>\<open>requests\<close> library and draws with Streamlit. Python values that travel as JSON are
  modelled by the datatype below; Python's \<^verbatim>\<open>None\<close> is \<open>JNull\<close>, a \<^verbatim>\<open>dict\<close> is an association
  list in insertion order, with distinct keys. A string is a list of characters, each a code
  point below 256.

  A Python float is a finite number, an infinity or NaN; \<^verbatim>\<open>Response.json()\<close> accepts the
  literals \<^verbatim>\<open>Infinity\<close>, \<^verbatim>\<open>-Infinity\<close> and \<^verbatim>\<open>NaN\<close>. \<open>Finite x\<close> stands for the float of
  value \<open>x\<close>.
\<close>

datatype pyfloat = Finite real | PosInf | NegInf | NaN

datatype json =
    JNull
  | JBool bool
  | JInt int
  | JFloat pyfloat
  | JStr string
  | JArr "json list"
  | JObj "(string \<times> json) list"

text \<open>Python truthiness, as used by \<^verbatim>\<open>if result:\<close> and \<^verbatim>\<open>if customers:\<close>.\<close>

fun truthy :: "json \<Rightarrow> bool" where
  "truthy JNull = False"
| "truthy (JBool b) = b"
| "truthy (JInt i) = (i \<noteq> 0)"
| "truthy (JFloat f) = (f \<noteq> Finite 0)"
| "truthy (JStr s) = (s \<noteq> [])"
| "truthy (JArr xs) = (xs \<noteq> [])"
| "truthy (JObj kvs) = (kvs \<noteq> [])"

text \<open>\<^verbatim>\<open>str(n)\<close> for an integer: decimal digits, with a minus sign when negative.\<close>

definition digit_char :: "nat \<Rightarrow> char" where
  "digit_char d = ''0123456789'' ! (d mod 10)"

function str_nat :: "nat \<Rightarrow> string" where
  "str_nat n = (if n < 10 then [digit_char n] else str_nat (n div 10) @ [digit_char (n mod 10)])"
  by pat_completeness auto
termination
  by (relation "measure id") auto

declare str_nat.simps [simp del]

definition str_int :: "int \<Rightarrow> string" where
  "str_int i = (if i < 0 then CHR ''-'' # str_nat (nat (- i)) else str_nat (nat i))"

section \<open>The HTTP helpers\<close>

text \<open>
  A call of \<^verbatim>\<open>requests.get/put/post\<close> either raises a \<^verbatim>\<open>RequestException\<close> before any
  response exists (connection error, timeout; \<open>Failed\<close> carries \<^verbatim>\<open>str(e)\<close>), or returns a
  response. \<^verbatim>\<open>Response.raise_for_status()\<close> raises \<^verbatim>\<open>HTTPError\<close> exactly for the status
  codes 400 to 599, with the message built below. \<^verbatim>\<open>Response.json()\<close> returns the parsed
  body, or raises \<^verbatim>\<open>requests.exceptions.JSONDecodeError\<close> (a \<^verbatim>\<open>RequestException\<close>) when the
  body is not JSON: \<open>resp_body\<close> is \<open>Inr\<close> the parsed body or \<open>Inl\<close> the decoder's message.
\<close>

datatype http_method = GET | PUT | POST

record request =
  req_method :: http_method
  req_url :: string
  req_params :: "(string \<times> json) list option"
  req_json :: "json option"
  req_timeout :: nat

record response =
  status_code :: nat
  reason :: string
  resp_url :: string
  resp_body :: "string + json"

datatype exchange = Failed string | Answered response

text \<open>The backend answers a request, possibly depending on the requests made before it.\<close>

type_synonym backend = "request list \<Rightarrow> request \<Rightarrow> exchange"

definition API_BASE_URL :: string where
  "API_BASE_URL = ''http://localhost:8000''"

definition raise_for_status :: "response \<Rightarrow> string + unit" where
  "raise_for_status r =
     (if 400 \<le> status_code r \<and> status_code r < 500 then
        Inl (str_nat (status_code r) @ '' Client Error: '' @ reason r @ '' for url: '' @ resp_url r)
      else if 500 \<le> status_code r \<and> status_code r < 600 then
        Inl (str_nat (status_code r) @ '' Server Error: '' @ reason r @ '' for url: '' @ resp_url r)
      else Inr ())"

text \<open>
  The body of the \<^verbatim>\<open>try\<close> block shared by the three helpers: the call, then
  \<^verbatim>\<open>raise_for_status()\<close>, then \<^verbatim>\<open>json()\<close>. \<open>Inl\<close> is the text of the caught
  \<^verbatim>\<open>RequestException\<close>.
\<close>

definition checked_json :: "exchange \<Rightarrow> string + json" where
  "checked_json x =
     (case x of
        Failed e \<Rightarrow> Inl e
      | Answered r \<Rightarrow> (case raise_for_status r of Inl e \<Rightarrow> Inl e | Inr _ \<Rightarrow> resp_body r))"

text \<open>
  The figures handed to \<^verbatim>\<open>st.plotly_chart\<close>, by the data they are built from: a pie and a
  bar chart from names and values, the gauge from its value, the map from its points
  (shipment id, shipment name, status, location, lat, lon), a line chart from its title, its
  dates (as day numbers) and its series.
\<close>

datatype chart =
    Pie "string list" "json list"
  | Bar "string list" "json list"
  | Gauge json
  | Scatter_mapbox "(int \<times> string \<times> string \<times> string \<times> real \<times> real) list"
  | Line string "int list" "pyfloat list"

text \<open>
  What one run of the script has done so far: the elements it has put on the page, in
  order, and the HTTP requests it has sent. \<open>St_markdown\<close> stands for a card or heading
  written with \<^verbatim>\<open>st.markdown(f"...")\<close>: the first argument names the fixed text of the
  template, the second lists the values interpolated into it, in order. The style sheet, the
  sidebar and the widgets themselves are not page content in this model; what the user
  entered into the widgets is an input of the run.
\<close>

datatype element =
    St_error string
  | St_warning string
  | St_success string
  | St_info string
  | St_markdown string "json list"
  | St_dataframe "string list" "json list list"
  | St_plotly_chart chart

record app =
  shown :: "element list"
  sent :: "request list"

definition st_show :: "element \<Rightarrow> app \<Rightarrow> app" where
  "st_show e a = a\<lparr>shown := shown a @ [e]\<rparr>"

definition send :: "backend \<Rightarrow> request \<Rightarrow> app \<Rightarrow> exchange \<times> app" where
  "send be rq a = (be (sent a) rq, a\<lparr>sent := sent a @ [rq]\<rparr>)"

definition get_request :: "string \<Rightarrow> (string \<times> json) list option \<Rightarrow> request" where
  "get_request endpoint params =
     \<lparr>req_method = GET, req_url = API_BASE_URL @ ''/'' @ endpoint,
      req_params = params, req_json = None, req_timeout = 10\<rparr>"


definition post_request :: "string \<Rightarrow> json \<Rightarrow> request" where
  "post_request endpoint data =
     \<lparr>req_method = POST, req_url = API_BASE_URL @ ''/'' @ endpoint,
      req_params = None, req_json = Some data, req_timeout = 10\<rparr>"

definition fetch_data :: "backend \<Rightarrow> string \<Rightarrow> (string \<times> json) list option \<Rightarrow> app \<Rightarrow> json \<times> app" where
  "fetch_data be endpoint params a =
     (let (x, a1) = send be (get_request endpoint params) a
      in case checked_json x of
           Inr j \<Rightarrow> (j, a1)
         | Inl e \<Rightarrow> (JNull, st_show (St_error (''Error fetching data from '' @ endpoint @ '': '' @ e)) a1))"


definition create_data :: "backend \<Rightarrow> string \<Rightarrow> json \<Rightarrow> app \<Rightarrow> json \<times> app" where
  "create_data be endpoint data a =
     (let (x, a1) = send be (post_request endpoint data) a
      in case checked_json x of
           Inr j \<Rightarrow> (j, a1)
         | Inl e \<Rightarrow> (JNull, st_show (St_error (''Error creating data at '' @ endpoint @ '': '' @ e)) a1))"

section \<open>Status styling\<close>

text \<open>
  A character is a code point below 256. \<^verbatim>\<open>str.lower()\<close> maps the capital letters among them
  (A to Z, and the accented capitals U+00C0 to U+00DE except the multiplication sign U+00D7)
  to the small letter 32 places on and leaves every other character as it is.
  \<^verbatim>\<open>str.replace(" ", "")\<close> deletes every space character and nothing else.
\<close>

definition capital_letters :: string where
  "capital_letters =
     ''ABCDEFGHIJKLMNOPQRSTUVWXYZ'' @
     [CHR 0xC0, CHR 0xC1, CHR 0xC2, CHR 0xC3, CHR 0xC4, CHR 0xC5, CHR 0xC6, CHR 0xC7,
      CHR 0xC8, CHR 0xC9, CHR 0xCA, CHR 0xCB, CHR 0xCC, CHR 0xCD, CHR 0xCE, CHR 0xCF,
      CHR 0xD0, CHR 0xD1, CHR 0xD2, CHR 0xD3, CHR 0xD4, CHR 0xD5, CHR 0xD6,
      CHR 0xD8, CHR 0xD9, CHR 0xDA, CHR 0xDB, CHR 0xDC, CHR 0xDD, CHR 0xDE]"

definition small_letters :: string where
  "small_letters =
     ''abcdefghijklmnopqrstuvwxyz'' @
     [CHR 0xE0, CHR 0xE1, CHR 0xE2, CHR 0xE3, CHR 0xE4, CHR 0xE5, CHR 0xE6, CHR 0xE7,
      CHR 0xE8, CHR 0xE9, CHR 0xEA, CHR 0xEB, CHR 0xEC, CHR 0xED, CHR 0xEE, CHR 0xEF,
      CHR 0xF0, CHR 0xF1, CHR 0xF2, CHR 0xF3, CHR 0xF4, CHR 0xF5, CHR 0xF6,
      CHR 0xF8, CHR 0xF9, CHR 0xFA, CHR 0xFB, CHR 0xFC, CHR 0xFD, CHR 0xFE]"

definition lower_char :: "char \<Rightarrow> char" where
  "lower_char c = (case map_of (zip capital_letters small_letters) c of Some d \<Rightarrow> d | None \<Rightarrow> c)"

definition lower :: "string \<Rightarrow> string" where
  "lower s = map lower_char s"

definition remove_spaces :: "string \<Rightarrow> string" where
  "remove_spaces s = filter (\<lambda>c. c \<noteq> CHR '' '') s"

definition format_status :: "string \<Rightarrow> string" where
  \<open>format_status status =
     (let status_lower = remove_spaces (lower status) in
      if status_lower = ''delivered'' then
        ''<span class="status-delivered">'' @ status @ ''</span>''
      else if status_lower = ''intransit'' \<or> status_lower = ''in-transit'' then
        ''<span class="status-intransit">'' @ status @ ''</span>''
      else if status_lower = ''processing'' then
        ''<span class="status-processing">'' @ status @ ''</span>''
      else if status_lower = ''delayed'' then
        ''<span class="status-delayed">'' @ status @ ''</span>''
      else status)\<close>

text \<open>
  The styling rule in the words of the amended claim, written independently of the code: a
  status matches a keyword when, read left to right with its space characters skipped, it has
  the keyword's characters up to letter case.
\<close>

fun status_matches :: "string \<Rightarrow> string \<Rightarrow> bool" where
  "status_matches [] w = (w = [])"
| "status_matches (c # s) w =
     (if c = CHR '' '' then status_matches s w
      else case w of [] \<Rightarrow> False | d # w' \<Rightarrow> lower_char c = lower_char d \<and> status_matches s w')"

text \<open>
  The styling rule in the words of the claim as stated, which ignores every separator: space,
  hyphen and underscore are dropped from the status and from the keyword before the two are
  compared without regard to letter case.
\<close>

definition separators :: string where
  "separators = '' -_''"

definition without_separators :: "string \<Rightarrow> string" where
  "without_separators s = filter (\<lambda>c. c \<notin> set separators) s"

definition matches_ignoring_separators :: "string \<Rightarrow> string \<Rightarrow> bool" where
  "matches_ignoring_separators s w = (lower (without_separators s) = lower (without_separators w))"

section \<open>Navigation\<close>

text \<open>
  The sidebar radio returns one of its options. The script then runs the first branch of
  its \<^verbatim>\<open>if page == ... elif page == ...\<close> chain whose string equals the page; the branches
  are tested in the order below.
\<close>

definition navigation_options :: "string list" where
  "navigation_options = [''Dashboard'', ''Shipments'', ''Customers'', ''Parcels'', ''Analytics'']"

datatype branch =
    Dashboard_branch
  | Customers_branch
  | Parcels_branch
  | Shipments_branch
  | Personnel_branch
  | Analytics_branch
  | Network_Visualization_branch
  | No_branch

definition page_branch :: "string \<Rightarrow> branch" where
  "page_branch page =
     (if page = ''Dashboard'' then Dashboard_branch
      else if page = ''Customers'' then Customers_branch
      else if page = ''Parcels'' then Parcels_branch
      else if page = ''Shipments'' then Shipments_branch
      else if page = ''Personnel'' then Personnel_branch
      else if page = ''Analytics'' then Analytics_branch
      else if page = ''Network Visualization'' then Network_Visualization_branch
      else No_branch)"

section \<open>Forms\<close>


text \<open>
  The Add Customer form. The dictionary \<^verbatim>\<open>new_customer\<close> is filled in the order CustomerID,
  Name, Email, Phone, Address, Type; the number input yields an integer, the others strings.
\<close>

record new_customer =
  nc_CustomerID :: int
  nc_Name :: string
  nc_Email :: string
  nc_Phone :: string
  nc_Address :: string
  nc_Type :: string

definition new_customer_json :: "new_customer \<Rightarrow> json" where
  "new_customer_json nc =
     JObj [(''CustomerID'', JInt (nc_CustomerID nc)), (''Name'', JStr (nc_Name nc)),
           (''Email'', JStr (nc_Email nc)), (''Phone'', JStr (nc_Phone nc)),
           (''Address'', JStr (nc_Address nc)), (''Type'', JStr (nc_Type nc))]"

definition new_customer_form :: "backend \<Rightarrow> new_customer \<Rightarrow> bool \<Rightarrow> app \<Rightarrow> app" where
  "new_customer_form be nc submit_button a =
     (if submit_button then
        if nc_Name nc \<noteq> [] \<and> nc_Email nc \<noteq> [] then
          (let (result, a1) = create_data be ''customers'' (new_customer_json nc) a
           in if truthy result then st_show (St_success ''Customer added successfully!'') a1
              else a1)
        else st_show (St_warning ''Please fill in all required fields'') a
      else a)"


section \<open>Python errors, dictionaries and random choice\<close>

datatype py_error =
    IndexError
  | KeyError
  | ValueError
  | TypeError
  | NameError
  | AttributeError
  | OverflowError
  | ReError

text \<open>\<^verbatim>\<open>d[k]\<close> and \<^verbatim>\<open>k in d\<close> on a dictionary held as an association list.\<close>

definition dict_lookup :: "('k \<times> 'v) list \<Rightarrow> 'k \<Rightarrow> py_error + 'v" where
  "dict_lookup d k = (case map_of d k of None \<Rightarrow> Inl KeyError | Some v \<Rightarrow> Inr v)"

definition dict_keys :: "('k \<times> 'v) list \<Rightarrow> 'k list" where
  "dict_keys d = map fst d"

definition dict_has :: "('k \<times> 'v) list \<Rightarrow> 'k \<Rightarrow> bool" where
  "dict_has d k = (k \<in> set (dict_keys d))"

text \<open>
  \<^verbatim>\<open>random.choice(seq)\<close> raises \<^verbatim>\<open>IndexError\<close> on an empty sequence and otherwise returns
  \<^verbatim>\<open>seq[i]\<close> for a random index \<open>i\<close> below the length. The generator is modelled by the raw
  number \<open>r\<close> it draws; the index is \<open>r mod length seq\<close>, so every index can occur and no other.
  The distribution of the draws is not modelled.
\<close>

definition random_choice :: "'a list \<Rightarrow> nat \<Rightarrow> py_error + 'a" where
  "random_choice seq r = (if seq = [] then Inl IndexError else Inr (seq ! (r mod length seq)))"

section \<open>String operations\<close>

text \<open>
  \<^verbatim>\<open>s.startswith(p)\<close> and \<^verbatim>\<open>sub in s\<close>.
\<close>

fun starts_with :: "string \<Rightarrow> string \<Rightarrow> bool" where
  "starts_with s [] = True"
| "starts_with [] (p # ps) = False"
| "starts_with (c # s) (p # ps) = (c = p \<and> starts_with s ps)"

fun contains :: "string \<Rightarrow> string \<Rightarrow> bool" where
  "contains [] sub = (sub = [])"
| "contains (c # s) sub = (starts_with (c # s) sub \<or> contains s sub)"

text \<open>\<^verbatim>\<open>s.endswith(p)\<close>.\<close>

definition ends_with :: "string \<Rightarrow> string \<Rightarrow> bool" where
  "ends_with s p = starts_with (rev s) (rev p)"

text \<open>
  \<^verbatim>\<open>s.split(sep)\<close>: the pieces of \<open>s\<close> between the occurrences of \<open>sep\<close>, found from left to
  right without overlap. \<open>cur\<close> holds the piece being read. An empty separator raises
  \<^verbatim>\<open>ValueError\<close>.
\<close>

function py_split_from :: "string \<Rightarrow> string \<Rightarrow> string \<Rightarrow> string list" where
  "py_split_from sep cur s =
     (if sep = [] then []
      else if s = [] then [cur]
      else if starts_with s sep then cur # py_split_from sep [] (drop (length sep) s)
      else py_split_from sep (cur @ [hd s]) (tl s))"
  by pat_completeness auto
termination
  by (relation "measure (\<lambda>(sep, cur, s). length s)") auto

declare py_split_from.simps [simp del]

definition py_split :: "string \<Rightarrow> string \<Rightarrow> py_error + string list" where
  "py_split s sep = (if sep = [] then Inl ValueError else Inr (py_split_from sep [] s))"

text \<open>\<^verbatim>\<open>s.strip(chars)\<close> removes the leading and the trailing characters that occur in \<open>chars\<close>.\<close>

definition py_strip :: "string \<Rightarrow> string \<Rightarrow> string" where
  "py_strip s chars =
     rev (dropWhile (\<lambda>c. c \<in> set chars) (rev (dropWhile (\<lambda>c. c \<in> set chars) s)))"

text \<open>
  \<^verbatim>\<open>int(s)\<close> for a string: surrounding whitespace is ignored, then come an optional sign and
  decimal digits, where single underscores may stand between digits. Anything else raises
  \<^verbatim>\<open>ValueError\<close>. The whitespace that \<^verbatim>\<open>int\<close> skips is the space, the characters U+0009 to
  U+000D, and among the characters from U+0080 on the next-line character U+0085 and the
  no-break space U+00A0; the separators U+001C to U+001F are not skipped.
\<close>

definition whitespace :: string where
  "whitespace = [CHR '' '', CHR 0x09, CHR 0x0A, CHR 0x0B, CHR 0x0C, CHR 0x0D,
                 CHR 0x85, CHR 0xA0]"

definition digit_value :: "char \<Rightarrow> nat option" where
  "digit_value c = map_of (zip ''0123456789'' [0, 1, 2, 3, 4, 5, 6, 7, 8, 9]) c"

fun digits_value :: "string \<Rightarrow> nat \<Rightarrow> nat option" where
  "digits_value [] acc = Some acc"
| "digits_value (c # s) acc =
     (case digit_value c of
        Some d \<Rightarrow> digits_value s (10 * acc + d)
      | None \<Rightarrow>
          if c = CHR ''_'' \<and> s \<noteq> [] \<and> digit_value (hd s) \<noteq> None then digits_value s acc
          else None)"

definition all_digits :: "string \<Rightarrow> bool" where
  "all_digits s = (\<forall>c \<in> set s. digit_value c \<noteq> None)"

definition unsigned_value :: "string \<Rightarrow> nat option" where
  "unsigned_value s =
     (if s = [] \<or> digit_value (hd s) = None then None else digits_value s 0)"

definition py_int :: "string \<Rightarrow> py_error + int" where
  "py_int s =
     (let t = py_strip s whitespace;
          negative = (t \<noteq> [] \<and> hd t = CHR ''-'');
          signed = (t \<noteq> [] \<and> (hd t = CHR ''-'' \<or> hd t = CHR ''+''))
      in case unsigned_value (if signed then tl t else t) of
           None \<Rightarrow> Inl ValueError
         | Some n \<Rightarrow> Inr (if negative then - int n else int n))"

section \<open>Drop-down labels\<close>

text \<open>
  The label \<^verbatim>\<open>f"{Name} (ID: {id})"\<close> shown in the customer, shipment and personnel select
  boxes, and the expression \<^verbatim>\<open>int(selected.split("ID: ")[1].strip(")"))\<close> that reads the id
  back from the selected label.
\<close>

definition option_label :: "string \<Rightarrow> int \<Rightarrow> string" where
  "option_label name ident = name @ '' (ID: '' @ str_int ident @ '')''"

definition option_id :: "string \<Rightarrow> py_error + int" where
  "option_id selected =
     (case py_split selected ''ID: '' of
        Inl e \<Rightarrow> Inl e
      | Inr parts \<Rightarrow>
          if length parts \<le> 1 then Inl IndexError else py_int (py_strip (parts ! 1) '')''))"

section \<open>Shipment map\<close>

text \<open>The city table of the Shipments page: city name to \<^verbatim>\<open>[lat, lon]\<close>.\<close>

definition locations :: "(string \<times> real \<times> real) list" where
  "locations =
     [(''New York'', 40.7128, - 74.0060),
      (''Los Angeles'', 34.0522, - 118.2437),
      (''Chicago'', 41.8781, - 87.6298),
      (''Houston'', 29.7604, - 95.3698),
      (''Phoenix'', 33.4484, - 112.0740),
      (''Philadelphia'', 39.9526, - 75.1652),
      (''San Antonio'', 29.4241, - 98.4936),
      (''San Diego'', 32.7157, - 117.1611),
      (''Dallas'', 32.7767, - 96.7970),
      (''San Jose'', 37.3382, - 121.8863),
      (''Austin'', 30.2672, - 97.7431),
      (''Jacksonville'', 30.3322, - 81.6557),
      (''San Francisco'', 37.7749, - 122.4194),
      (''Columbus'', 39.9612, - 82.9988),
      (''Indianapolis'', 39.7684, - 86.1581),
      (''Seattle'', 47.6062, - 122.3321),
      (''Denver'', 39.7392, - 104.9903),
      (''Washington'', 38.9072, - 77.0369),
      (''Boston'', 42.3601, - 71.0589),
      (''Nashville'', 36.1627, - 86.7816)]"

text \<open>
  A shipment as the Shipments page reads it: the fields of one row of the data frame built
  from the \<^verbatim>\<open>shipments\<close> payload.
\<close>

record shipment =
  s_ShipmentID :: int
  s_ShipmentName :: string
  s_ParcelID :: int
  s_Status :: string
  s_CurrentLocation :: string
  s_ShipmentDate :: string
  s_DeliveryDate :: string

record map_point =
  m_ShipmentID :: int
  m_ShipmentName :: string
  m_Status :: string
  m_Location :: string
  m_lat :: real
  m_lon :: real

text \<open>
  The body of the \<^verbatim>\<open>if location in locations ... else ...\<close> statement: the coordinates for one
  location, where \<open>r\<close> is the number the generator draws if \<^verbatim>\<open>random.choice\<close> is called.
\<close>

definition place_on_map :: "string \<Rightarrow> nat \<Rightarrow> py_error + real \<times> real" where
  "place_on_map location r =
     (if dict_has locations location then dict_lookup locations location
      else case random_choice (dict_keys locations) r of
             Inl e \<Rightarrow> Inl e
           | Inr random_location \<Rightarrow> dict_lookup locations random_location)"

text \<open>
  The loop that fills \<^verbatim>\<open>map_data\<close>. \<open>rnd\<close> is the sequence of numbers the generator draws
  and \<open>n\<close> the number of draws made so far; a draw is made only for a location that is not in
  the table.
\<close>

fun map_data :: "(nat \<Rightarrow> nat) \<Rightarrow> nat \<Rightarrow> shipment list \<Rightarrow> py_error + map_point list" where
  "map_data rnd n [] = Inr []"
| "map_data rnd n (row # rows) =
     (let location = s_CurrentLocation row in
      case place_on_map location (rnd n) of
        Inl e \<Rightarrow> Inl e
      | Inr (lat, lon) \<Rightarrow>
          (case map_data rnd (if dict_has locations location then n else Suc n) rows of
             Inl e \<Rightarrow> Inl e
           | Inr points \<Rightarrow>
               Inr (\<lparr>m_ShipmentID = s_ShipmentID row, m_ShipmentName = s_ShipmentName row,
                     m_Status = s_Status row, m_Location = location,
                     m_lat = lat, m_lon = lon\<rparr> # points)))"

section \<open>Synthetic KPI trends\<close>

text \<open>
  Comparison of floats: \<^verbatim>\<open>a < b\<close> and \<^verbatim>\<open>a <= b\<close>. Every comparison with NaN is false.
\<close>

fun flt :: "pyfloat \<Rightarrow> pyfloat \<Rightarrow> bool" where
  "flt (Finite a) (Finite b) = (a < b)"
| "flt (Finite a) PosInf = True"
| "flt NegInf (Finite b) = True"
| "flt NegInf PosInf = True"
| "flt _ _ = False"

fun fle :: "pyfloat \<Rightarrow> pyfloat \<Rightarrow> bool" where
  "fle (Finite a) (Finite b) = (a \<le> b)"
| "fle (Finite a) PosInf = True"
| "fle NegInf (Finite b) = True"
| "fle NegInf PosInf = True"
| "fle NegInf NegInf = True"
| "fle PosInf PosInf = True"
| "fle _ _ = False"

text \<open>
  \<^verbatim>\<open>min(a, b)\<close> and \<^verbatim>\<open>max(a, b)\<close> return their first argument unless the second is strictly
  smaller (larger).
\<close>

definition py_min :: "pyfloat \<Rightarrow> pyfloat \<Rightarrow> pyfloat" where
  "py_min a b = (if flt b a then b else a)"

definition py_max :: "pyfloat \<Rightarrow> pyfloat \<Rightarrow> pyfloat" where
  "py_max a b = (if flt a b then b else a)"

text \<open>
  The result of an arithmetic operation on floats is the exact result rounded to a float.
  \<open>fl\<close> is the rounding of the float format, which the model does not compute: it is a
  parameter, and what is proved holds for every \<open>fl\<close>. An exact result of magnitude
  \<open>2^1024 - 2^970\<close> or more rounds to an infinity. An integer of that magnitude cannot be
  converted to a float: the conversion raises \<^verbatim>\<open>OverflowError\<close>.
\<close>

definition float_overflow :: real where
  "float_overflow = 2 ^ 1024 - 2 ^ 970"

definition to_float :: "(real \<Rightarrow> real) \<Rightarrow> real \<Rightarrow> pyfloat" where
  "to_float fl x =
     (if float_overflow \<le> x then PosInf
      else if x \<le> - float_overflow then NegInf
      else Finite (fl x))"


text \<open>
  \<^verbatim>\<open>a + x\<close> for a float \<open>a\<close> and a finite float \<open>x\<close>: an infinity and NaN stay what they are.
\<close>

definition float_add :: "(real \<Rightarrow> real) \<Rightarrow> pyfloat \<Rightarrow> real \<Rightarrow> pyfloat" where
  "float_add fl a x = (case a of Finite r \<Rightarrow> to_float fl (r + x) | _ \<Rightarrow> a)"

text \<open>
  The three series. \<open>normal\<close> is the sequence of values \<^verbatim>\<open>np.random.normal\<close> returns in one
  run, each a finite float: the efficiency series uses draws 0 to 29, the rating series 30 to
  59, the on-time series 60 to 89. The base value is the KPI as a float.
\<close>

definition efficiency_data :: "(real \<Rightarrow> real) \<Rightarrow> pyfloat \<Rightarrow> (nat \<Rightarrow> real) \<Rightarrow> pyfloat list" where
  "efficiency_data fl base_efficiency normal =
     map (\<lambda>i. py_max (py_min (float_add fl base_efficiency (normal i)) (Finite 100)) (Finite 50))
       [0..<30]"

definition rating_data :: "(real \<Rightarrow> real) \<Rightarrow> pyfloat \<Rightarrow> (nat \<Rightarrow> real) \<Rightarrow> pyfloat list" where
  "rating_data fl base_rating normal =
     map (\<lambda>i. py_max (py_min (float_add fl base_rating (normal (30 + i))) (Finite 5)) (Finite 1))
       [0..<30]"

definition ontime_data :: "(real \<Rightarrow> real) \<Rightarrow> pyfloat \<Rightarrow> (nat \<Rightarrow> real) \<Rightarrow> pyfloat list" where
  "ontime_data fl base_ontime normal =
     map (\<lambda>i. py_max (py_min (float_add fl base_ontime (normal (60 + i))) (Finite 100)) (Finite 70))
       [0..<30]"

text \<open>A point lies within \<open>[lo, hi]\<close>: \<^verbatim>\<open>lo <= x <= hi\<close>.\<close>

definition in_bounds :: "real \<Rightarrow> real \<Rightarrow> pyfloat \<Rightarrow> bool" where
  "in_bounds lo hi x = (fle (Finite lo) x \<and> fle x (Finite hi))"

section \<open>Customer filters\<close>

text \<open>
  A customer as the Customers page reads it: the fields of one row of the data frame built
  from the \<^verbatim>\<open>customers\<close> payload.
\<close>

record customer =
  c_CustomerID :: int
  c_Name :: string
  c_Email :: string
  c_Phone :: string
  c_Address :: string
  c_Type :: string

text \<open>
  \<^verbatim>\<open>Series.str.contains(pat, case=False)\<close> is called without \<^verbatim>\<open>regex=False\<close>, so pandas
  compiles \<open>pat\<close> as a regular expression with \<^verbatim>\<open>re.IGNORECASE\<close> and keeps the rows where
  \<^verbatim>\<open>re.search\<close> finds a match. Compiling raises \<^verbatim>\<open>re.error\<close> for a text that is not a
  regular expression, such as \<^verbatim>\<open>(\<close>.

  The patterns made of ordinary characters and the wildcard \<^verbatim>\<open>.\<close> (any character but a
  newline) are interpreted here. For every other pattern the regular-expression library
  itself is a parameter \<open>lib\<close>: it maps the pattern to the error, or to the test that tells
  whether the compiled pattern is found in a string. Nothing is assumed about \<open>lib\<close>.
\<close>

type_synonym regex_library = "string \<Rightarrow> py_error + (string \<Rightarrow> bool)"

definition regex_special :: string where
  "regex_special = ''.^$*+?{}[]|()'' @ [CHR 0x5C]"

definition literal_pattern :: "string \<Rightarrow> bool" where
  "literal_pattern pat = (\<forall>c \<in> set pat. c \<notin> set regex_special)"

definition dot_pattern :: "string \<Rightarrow> bool" where
  "dot_pattern pat = (\<forall>c \<in> set pat. c \<notin> set regex_special \<or> c = CHR ''.'')"

definition char_match :: "char \<Rightarrow> char \<Rightarrow> bool" where
  "char_match p c = (if p = CHR ''.'' then c \<noteq> CHR 0x0A else lower_char p = lower_char c)"

fun match_here :: "string \<Rightarrow> string \<Rightarrow> bool" where
  "match_here [] s = True"
| "match_here (p # ps) [] = False"
| "match_here (p # ps) (c # s) = (char_match p c \<and> match_here ps s)"

fun re_search :: "string \<Rightarrow> string \<Rightarrow> bool" where
  "re_search pat [] = match_here pat []"
| "re_search pat (c # s) = (match_here pat (c # s) \<or> re_search pat s)"

definition re_compile :: "regex_library \<Rightarrow> string \<Rightarrow> py_error + (string \<Rightarrow> bool)" where
  "re_compile lib pat = (if dot_pattern pat then Inr (re_search pat) else lib pat)"

definition str_contains :: "regex_library \<Rightarrow> string \<Rightarrow> string list \<Rightarrow> py_error + bool list" where
  "str_contains lib pat series =
     (case re_compile lib pat of Inl e \<Rightarrow> Inl e | Inr found \<Rightarrow> Inr (map found series))"

text \<open>Boolean indexing \<^verbatim>\<open>df[mask]\<close>: the rows whose entry in the mask \<open>keep\<close> is true.\<close>

definition boolean_index :: "'a list \<Rightarrow> bool list \<Rightarrow> 'a list" where
  "boolean_index df keep = map fst (filter snd (zip df keep))"

text \<open>
  The two filters of the Customers page, applied one after the other to the fetched rows.
  The result is \<open>Inl\<close> when compiling the name filter raises.
\<close>

definition filter_customers ::
  "regex_library \<Rightarrow> string \<Rightarrow> string \<Rightarrow> customer list \<Rightarrow> py_error + customer list" where
  "filter_customers lib filter_name filter_type df =
     (case (if filter_name \<noteq> [] then
              (case str_contains lib filter_name (map c_Name df) of
                 Inl e \<Rightarrow> Inl e
               | Inr keep \<Rightarrow> Inr (boolean_index df keep))
            else Inr df) of
        Inl e \<Rightarrow> Inl e
      | Inr filtered_df \<Rightarrow>
          Inr (if filter_type \<noteq> ''All'' then
                 boolean_index filtered_df (map (\<lambda>c. c_Type c = filter_type) filtered_df)
               else filtered_df))"

text \<open>
  The specification's words for the name filter: the filter text occurs in the name as a
  substring once both are lower-cased.
\<close>

definition ci_substring :: "string \<Rightarrow> string \<Rightarrow> bool" where
  "ci_substring sub s = contains (lower s) (lower sub)"

section \<open>One run of the script\<close>




























section \<open>The pages\<close>






subsection \<open>Dashboard\<close>



subsection \<open>Customers\<close>



subsection \<open>Parcels and Shipments\<close>










subsection \<open>Analytics\<close>






subsection \<open>The whole run\<close>






section \<open>Example runs\<close>

text \<open>Concrete backends and a fresh run, used to evaluate the definitions.\<close>

definition fresh_run :: app where
  "fresh_run = \<lparr>shown = [], sent = []\<rparr>"

definition ok_backend :: backend where
  "ok_backend h rq =
     Answered \<lparr>status_code = 200, reason = ''OK'', resp_url = req_url rq,
               resp_body = Inr (JObj [(''message'', JStr ''ok'')])\<rparr>"

definition multiple_choices_backend :: backend where
  "multiple_choices_backend h rq =
     Answered \<lparr>status_code = 300, reason = ''Multiple Choices'', resp_url = req_url rq,
               resp_body = Inr (JArr [JInt 1])\<rparr>"

definition not_found_backend :: backend where
  "not_found_backend h rq =
     Answered \<lparr>status_code = 404, reason = ''Not Found'', resp_url = req_url rq,
               resp_body = Inr (JObj [(''detail'', JStr ''Not Found'')])\<rparr>"

definition offline_backend :: backend where
  "offline_backend h rq = Failed ''Connection refused''"


definition html_ok_backend :: backend where
  "html_ok_backend h rq =
     Answered \<lparr>status_code = 200, reason = ''OK'', resp_url = req_url rq,
               resp_body = Inl ''Expecting value: line 1 column 1 (char 0)''\<rparr>"

definition unavailable_backend :: backend where
  "unavailable_backend h rq =
     Answered \<lparr>status_code = 503, reason = ''Service Unavailable'', resp_url = req_url rq,
               resp_body = Inr JNull\<rparr>"

definition alice :: new_customer where
  "alice = \<lparr>nc_CustomerID = 7, nc_Name = ''Alice'', nc_Email = ''alice@example.org'',
            nc_Phone = '''', nc_Address = '''', nc_Type = ''Individual''\<rparr>"

definition nameless :: new_customer where
  "nameless = \<lparr>nc_CustomerID = 8, nc_Name = '''', nc_Email = ''bob@example.org'',
               nc_Phone = '''', nc_Address = '''', nc_Type = ''Business''\<rparr>"

definition lost_shipment :: shipment where
  "lost_shipment =
     \<lparr>s_ShipmentID = 3, s_ShipmentName = ''Crate'', s_ParcelID = 9, s_Status = ''Delayed'',
      s_CurrentLocation = ''Nowhereville'', s_ShipmentDate = ''2025-03-01'',
      s_DeliveryDate = ''2025-03-09''\<rparr>"

definition boston_shipment :: shipment where
  "boston_shipment =
     \<lparr>s_ShipmentID = 4, s_ShipmentName = ''Box'', s_ParcelID = 2, s_Status = ''In Transit'',
      s_CurrentLocation = ''Boston'', s_ShipmentDate = ''2025-03-02'',
      s_DeliveryDate = ''2025-03-05''\<rparr>"

definition steady_draws :: "nat \<Rightarrow> nat" where
  "steady_draws n = 42"

definition wild_noise :: "nat \<Rightarrow> real" where
  "wild_noise n = (if even n then 1000 else - 1000)"

definition john_doe :: customer where
  "john_doe = \<lparr>c_CustomerID = 1, c_Name = ''John Doe'', c_Email = ''john@example.org'',
               c_Phone = ''555-0100'', c_Address = ''1 Main St'', c_Type = ''Individual''\<rparr>"

definition jane :: customer where
  "jane = \<lparr>c_CustomerID = 2, c_Name = ''Jane'', c_Email = ''jane@example.org'',
           c_Phone = ''555-0101'', c_Address = ''2 Main St'', c_Type = ''Business''\<rparr>"






definition quiet_noise :: "nat \<Rightarrow> real" where
  "quiet_noise n = 0"





section \<open>Properties of the HTTP helpers\<close>

text \<open>
  Claim C1, as amended. For every call of \<^verbatim>\<open>fetch_data(endpoint, params)\<close>: if the GET
  succeeds with a 2xx status, the parsed JSON body of the response is returned unchanged; if
  the response has a 4xx or 5xx status, or a transport error occurs, the result is null and
  exactly one error notification is shown, whose text names the endpoint.

  The theorem gives the result of the call in every case. The script calls \<^verbatim>\<open>requests.get\<close>
  once, with the URL, the parameters and the timeout of \<open>get_request\<close>. A response with a
  status outside 400..599 (every 2xx status is one) and a JSON body: the parsed body is
  returned and nothing is shown. A status outside 400..599 and a body that is not JSON, a
  status 400..499, a status 500..599, a transport error: null is returned and one
  notification \<^verbatim>\<open>Error fetching data from <endpoint>: <text>\<close> is added, the text being the
  decoder's message, the message of the \<^verbatim>\<open>HTTPError\<close>, or that of the transport error.
\<close>

theorem fetch_data_result:
  assumes "be (sent a) (get_request endpoint params) = x"
  shows "sent (snd (fetch_data be endpoint params a)) = sent a @ [get_request endpoint params]
       \<and> (\<forall>r j. x = Answered r \<longrightarrow> \<not> (400 \<le> status_code r \<and> status_code r < 600) \<longrightarrow>
              resp_body r = Inr j \<longrightarrow>
              fetch_data be endpoint params a =
                (j, a\<lparr>sent := sent a @ [get_request endpoint params]\<rparr>))
       \<and> (\<forall>r msg. x = Answered r \<longrightarrow> \<not> (400 \<le> status_code r \<and> status_code r < 600) \<longrightarrow>
              resp_body r = Inl msg \<longrightarrow>
              fetch_data be endpoint params a =
                (JNull, a\<lparr>sent := sent a @ [get_request endpoint params],
                           shown := shown a @
                             [St_error (''Error fetching data from '' @ endpoint @ '': '' @ msg)]\<rparr>))
       \<and> (\<forall>r. x = Answered r \<longrightarrow> 400 \<le> status_code r \<longrightarrow> status_code r < 500 \<longrightarrow>
              fetch_data be endpoint params a =
                (JNull, a\<lparr>sent := sent a @ [get_request endpoint params],
                           shown := shown a @
                             [St_error (''Error fetching data from '' @ endpoint @ '': '' @
                                str_nat (status_code r) @ '' Client Error: '' @ reason r @
                                '' for url: '' @ resp_url r)]\<rparr>))
       \<and> (\<forall>r. x = Answered r \<longrightarrow> 500 \<le> status_code r \<longrightarrow> status_code r < 600 \<longrightarrow>
              fetch_data be endpoint params a =
                (JNull, a\<lparr>sent := sent a @ [get_request endpoint params],
                           shown := shown a @
                             [St_error (''Error fetching data from '' @ endpoint @ '': '' @
                                str_nat (status_code r) @ '' Server Error: '' @ reason r @
                                '' for url: '' @ resp_url r)]\<rparr>))
       \<and> (\<forall>e. x = Failed e \<longrightarrow>
              fetch_data be endpoint params a =
                (JNull, a\<lparr>sent := sent a @ [get_request endpoint params],
                           shown := shown a @
                             [St_error (''Error fetching data from '' @ endpoint @ '': '' @ e)]\<rparr>))"
proof -
  have s: "sent (snd (fetch_data be endpoint params a)) = sent a @ [get_request endpoint params]"
    by (simp add: fetch_data_def send_def st_show_def split: sum.split)
  show ?thesis
    using assms
    by (intro conjI s)
      (auto simp: fetch_data_def send_def checked_json_def raise_for_status_def st_show_def)
qed

theorem fetch_data_result_witness:
  "fetch_data ok_backend ''customers'' None fresh_run =
     (JObj [(''message'', JStr ''ok'')], \<lparr>shown = [], sent = [get_request ''customers'' None]\<rparr>)
   \<and> fetch_data html_ok_backend ''customers'' None fresh_run =
     (JNull, \<lparr>shown = [St_error
        ''Error fetching data from customers: Expecting value: line 1 column 1 (char 0)''],
               sent = [get_request ''customers'' None]\<rparr>)
   \<and> fetch_data not_found_backend ''customers'' None fresh_run =
     (JNull, \<lparr>shown = [St_error
        ''Error fetching data from customers: 404 Client Error: Not Found for url: http://localhost:8000/customers''],
               sent = [get_request ''customers'' None]\<rparr>)
   \<and> fetch_data unavailable_backend ''customers'' None fresh_run =
     (JNull, \<lparr>shown = [St_error
        ''Error fetching data from customers: 503 Server Error: Service Unavailable for url: http://localhost:8000/customers''],
               sent = [get_request ''customers'' None]\<rparr>)
   \<and> fetch_data offline_backend ''customers'' None fresh_run =
     (JNull, \<lparr>shown = [St_error ''Error fetching data from customers: Connection refused''],
               sent = [get_request ''customers'' None]\<rparr>)"
proof -
  have n404: "str_nat 404 = ''404''" and n503: "str_nat 503 = ''503''"
    by (simp_all add: str_nat.simps digit_char_def)
  have u: "req_url (get_request ''customers'' None) = ''http://localhost:8000/customers''"
    by (simp add: get_request_def API_BASE_URL_def)
  show ?thesis
    using fetch_data_result [of ok_backend fresh_run "''customers''" None, OF refl]
      fetch_data_result [of html_ok_backend fresh_run "''customers''" None, OF refl]
      fetch_data_result [of not_found_backend fresh_run "''customers''" None, OF refl]
      fetch_data_result [of unavailable_backend fresh_run "''customers''" None, OF refl]
      fetch_data_result [of offline_backend fresh_run "''customers''" None, OF refl]
    by (simp add: ok_backend_def html_ok_backend_def not_found_backend_def
        unavailable_backend_def offline_backend_def fresh_run_def n404 n503 u)
qed

text \<open>
  Claim C1 as stated fails on a status that is neither 2xx nor 4xx/5xx: a 300 response with a
  JSON body is returned like a success, and no notification is shown.
\<close>

theorem fetch_data_non_2xx_counterexample:
  "multiple_choices_backend (sent fresh_run) (get_request ''customers'' None) =
     Answered \<lparr>status_code = 300, reason = ''Multiple Choices'',
               resp_url = ''http://localhost:8000/customers'', resp_body = Inr (JArr [JInt 1])\<rparr>
   \<and> fetch_data multiple_choices_backend ''customers'' None fresh_run =
       (JArr [JInt 1], \<lparr>shown = [], sent = [get_request ''customers'' None]\<rparr>)"
  by (simp add: fetch_data_def send_def checked_json_def raise_for_status_def
      multiple_choices_backend_def fresh_run_def get_request_def API_BASE_URL_def)

section \<open>Properties of the status styling\<close>

lemma lower_char_space: "lower_char c = CHR '' '' \<longleftrightarrow> c = CHR '' ''"
  by (simp add: lower_char_def capital_letters_def small_letters_def)

lemma status_matches_iff:
  "CHR '' '' \<notin> set w \<Longrightarrow> status_matches s w \<longleftrightarrow> remove_spaces (lower s) = lower w"
proof (induction s arbitrary: w)
  case Nil
  then show ?case by (auto simp: remove_spaces_def lower_def)
next
  case (Cons c s)
  then show ?case
    by (cases w) (auto simp: remove_spaces_def lower_def lower_char_space)
qed

lemma lower_keywords:
  "lower ''delivered'' = ''delivered''" "lower ''intransit'' = ''intransit''"
  "lower ''in-transit'' = ''in-transit''" "lower ''processing'' = ''processing''"
  "lower ''delayed'' = ''delayed''"
  by (simp_all add: lower_def lower_char_def capital_letters_def small_letters_def)

text \<open>
  Claim C2, as amended. A status that matches \<^verbatim>\<open>delivered\<close>, \<^verbatim>\<open>intransit\<close> or \<^verbatim>\<open>in-transit\<close>,
  \<^verbatim>\<open>processing\<close>, or \<^verbatim>\<open>delayed\<close>, compared without regard to letter case and with its space
  characters ignored, is returned between \<^verbatim>\<open><span class="status-...">\<close> and \<^verbatim>\<open></span>\<close>, the
  class being \<^verbatim>\<open>status-delivered\<close>, \<^verbatim>\<open>status-intransit\<close>, \<^verbatim>\<open>status-processing\<close>,
  \<^verbatim>\<open>status-delayed\<close> respectively; every other string is returned unchanged.
\<close>

theorem format_status_classes:
  \<open>(status_matches s ''delivered'' \<longrightarrow>
      format_status s = ''<span class="status-delivered">'' @ s @ ''</span>'')
 \<and> (status_matches s ''intransit'' \<or> status_matches s ''in-transit'' \<longrightarrow>
      format_status s = ''<span class="status-intransit">'' @ s @ ''</span>'')
 \<and> (status_matches s ''processing'' \<longrightarrow>
      format_status s = ''<span class="status-processing">'' @ s @ ''</span>'')
 \<and> (status_matches s ''delayed'' \<longrightarrow>
      format_status s = ''<span class="status-delayed">'' @ s @ ''</span>'')
 \<and> (\<not> status_matches s ''delivered'' \<and> \<not> status_matches s ''intransit''
      \<and> \<not> status_matches s ''in-transit'' \<and> \<not> status_matches s ''processing''
      \<and> \<not> status_matches s ''delayed'' \<longrightarrow> format_status s = s)\<close>
  by (simp add: status_matches_iff lower_keywords format_status_def)

theorem format_status_classes_witness:
  \<open>format_status ''Delivered'' = ''<span class="status-delivered">Delivered</span>''
 \<and> format_status ''In Transit'' = ''<span class="status-intransit">In Transit</span>''
 \<and> format_status ''IN-TRANSIT'' = ''<span class="status-intransit">IN-TRANSIT</span>''
 \<and> format_status ''processing'' = ''<span class="status-processing">processing</span>''
 \<and> format_status ''De layed'' = ''<span class="status-delayed">De layed</span>''
 \<and> format_status ''Lost'' = ''Lost''\<close>
  using format_status_classes [of "''Delivered''"] format_status_classes [of "''In Transit''"]
    format_status_classes [of "''IN-TRANSIT''"] format_status_classes [of "''processing''"]
    format_status_classes [of "''De layed''"] format_status_classes [of "''Lost''"]
  by (simp add: lower_char_def capital_letters_def small_letters_def)

text \<open>
  Claim C2 as stated ignores separators in general, and fails for a separator other than the
  space: \<^verbatim>\<open>In_Transit\<close> matches \<^verbatim>\<open>in-transit\<close> and \<^verbatim>\<open>De-layed\<close> matches \<^verbatim>\<open>delayed\<close> once
  separators and letter case are ignored, yet both are returned unchanged, without a span.
\<close>

theorem format_status_separator_counterexample:
  "matches_ignoring_separators ''In_Transit'' ''in-transit''
   \<and> format_status ''In_Transit'' = ''In_Transit''
   \<and> matches_ignoring_separators ''De-layed'' ''delayed''
   \<and> format_status ''De-layed'' = ''De-layed''"
  by (simp add: matches_ignoring_separators_def without_separators_def separators_def
      format_status_def remove_spaces_def lower_def lower_char_def capital_letters_def
      small_letters_def)

section \<open>Properties of the navigation and the forms\<close>

lemma str_int_12: "str_int 12 = ''12''"
  by (simp add: str_int_def str_nat.simps digit_char_def)

text \<open>
  Claim C8. Whatever option the navigation radio yields, the page is neither
  \<^verbatim>\<open>Personnel\<close> nor \<^verbatim>\<open>Network Visualization\<close>, so the script never enters those two
  branches.
\<close>

theorem navigation_excludes_dead_branches:
  "\<forall>page \<in> set navigation_options.
     page \<noteq> ''Personnel'' \<and> page \<noteq> ''Network Visualization''
     \<and> page_branch page \<noteq> Personnel_branch \<and> page_branch page \<noteq> Network_Visualization_branch"
  by (simp add: navigation_options_def page_branch_def)

theorem navigation_excludes_dead_branches_witness:
  "''Analytics'' \<in> set navigation_options \<and> page_branch ''Analytics'' = Analytics_branch
   \<and> page_branch ''Analytics'' \<noteq> Personnel_branch
   \<and> page_branch ''Analytics'' \<noteq> Network_Visualization_branch"
  using navigation_excludes_dead_branches [THEN bspec, of "''Analytics''"]
  by (simp add: navigation_options_def page_branch_def)

text \<open>
  Claim C9. When the Add Customer form is submitted with an empty Name or an empty Email, no
  request is sent and the warning is shown; with both filled in, one POST to \<^verbatim>\<open>customers\<close>
  carrying the entered customer is sent. A request is sent if and only if both are non-empty.
\<close>

theorem new_customer_form_guard:
  assumes "submit_button"
  shows "(nc_Name nc = [] \<or> nc_Email nc = [] \<longrightarrow>
            new_customer_form be nc submit_button a =
              a\<lparr>shown := shown a @ [St_warning ''Please fill in all required fields'']\<rparr>)
       \<and> (nc_Name nc \<noteq> [] \<and> nc_Email nc \<noteq> [] \<longrightarrow>
            sent (new_customer_form be nc submit_button a) =
              sent a @ [post_request ''customers'' (new_customer_json nc)])
       \<and> (sent (new_customer_form be nc submit_button a) \<noteq> sent a \<longleftrightarrow>
            nc_Name nc \<noteq> [] \<and> nc_Email nc \<noteq> [])"
  using assms
  by (auto simp: new_customer_form_def create_data_def send_def st_show_def
      split: sum.splits prod.splits)

theorem new_customer_form_guard_witness:
  "new_customer_form ok_backend nameless True fresh_run =
     \<lparr>shown = [St_warning ''Please fill in all required fields''], sent = []\<rparr>
   \<and> sent (new_customer_form ok_backend alice True fresh_run) =
       [post_request ''customers'' (new_customer_json alice)]"
  using new_customer_form_guard [of True nameless ok_backend fresh_run]
    new_customer_form_guard [of True alice ok_backend fresh_run]
  by (simp add: nameless_def alice_def fresh_run_def)




section \<open>Properties of the shipment map\<close>

lemma locations_length: "length locations = 20"
  by (simp add: locations_def)

lemma dict_lookup_key:
  "k \<in> set (dict_keys d) \<Longrightarrow> \<exists>v. dict_lookup d k = Inr v \<and> (k, v) \<in> set d"
  unfolding dict_lookup_def dict_keys_def
  by (cases "map_of d k") (auto simp: map_of_eq_None_iff dest: map_of_SomeD)

lemma random_choice_member:
  "seq \<noteq> [] \<Longrightarrow> \<exists>x. random_choice seq r = Inr x \<and> x \<in> set seq"
  by (simp add: random_choice_def)

lemma place_on_map_in_table:
  "\<exists>city lat lon. place_on_map location r = Inr (lat, lon) \<and> (city, lat, lon) \<in> set locations
      \<and> (dict_has locations location \<longrightarrow> city = location)"
proof (cases "dict_has locations location")
  case True
  then have loc: "location \<in> set (dict_keys locations)" by (simp add: dict_has_def)
  obtain v where v: "dict_lookup locations location = Inr v" "(location, v) \<in> set locations"
    using dict_lookup_key [OF loc] by blast
  obtain lat lon where "v = (lat, lon)" by (cases v)
  with v True have "place_on_map location r = Inr (lat, lon) \<and> (location, lat, lon) \<in> set locations"
    by (simp add: place_on_map_def)
  then show ?thesis by blast
next
  case False
  have "dict_keys locations \<noteq> []" using locations_length by (auto simp: dict_keys_def)
  then obtain k where k: "random_choice (dict_keys locations) r = Inr k" "k \<in> set (dict_keys locations)"
    using random_choice_member [of "dict_keys locations" r] by blast
  obtain v where v: "dict_lookup locations k = Inr v" "(k, v) \<in> set locations"
    using dict_lookup_key [OF k(2)] by blast
  obtain lat lon where "v = (lat, lon)" by (cases v)
  with v k False have "place_on_map location r = Inr (lat, lon) \<and> (k, lat, lon) \<in> set locations"
    by (simp add: place_on_map_def)
  with False show ?thesis by blast
qed

lemma map_data_total:
  "\<exists>points. map_data rnd n rows = Inr points \<and> length points = length rows
     \<and> (\<forall>p \<in> set points. \<exists>city. (city, m_lat p, m_lon p) \<in> set locations)"
proof (induction rows arbitrary: n)
  case Nil
  show ?case by simp
next
  case (Cons row rows)
  obtain city lat lon where p: "place_on_map (s_CurrentLocation row) (rnd n) = Inr (lat, lon)"
      "(city, lat, lon) \<in> set locations"
    using place_on_map_in_table by blast
  obtain points where q: "map_data rnd (if dict_has locations (s_CurrentLocation row) then n else Suc n) rows = Inr points"
    "length points = length rows" "\<forall>p \<in> set points. \<exists>city. (city, m_lat p, m_lon p) \<in> set locations"
    using Cons.IH by blast
  let ?pt = "\<lparr>m_ShipmentID = s_ShipmentID row, m_ShipmentName = s_ShipmentName row,
                     m_Status = s_Status row, m_Location = s_CurrentLocation row,
                     m_lat = lat, m_lon = lon\<rparr>"
  have "map_data rnd n (row # rows) = Inr (?pt # points)"
    using p(1) q(1) by (simp add: Let_def)
  moreover have "\<exists>city. (city, m_lat ?pt, m_lon ?pt) \<in> set locations"
    using p(2) by auto
  ultimately show ?case using q(2,3) by simp
qed

lemma locations_keys_distinct: "distinct (dict_keys locations)"
  by (simp add: locations_def dict_keys_def)

lemma place_on_map_known:
  "dict_has locations location \<Longrightarrow> place_on_map location r = dict_lookup locations location"
  by (simp add: place_on_map_def)

lemma place_on_map_unknown:
  "\<not> dict_has locations location \<Longrightarrow>
     place_on_map location r = dict_lookup locations (dict_keys locations ! (r mod 20))"
  using locations_length
  by (auto simp: place_on_map_def random_choice_def dict_keys_def)

lemma place_on_map_reaches:
  assumes "\<not> dict_has locations location" and "(city, lat, lon) \<in> set locations"
  shows "\<exists>r. place_on_map location r = Inr (lat, lon)"
proof -
  from assms(2) obtain i where i: "i < length locations" "locations ! i = (city, lat, lon)"
    by (auto simp: in_set_conv_nth)
  then have "dict_keys locations ! (i mod 20) = city"
    using locations_length by (simp add: dict_keys_def)
  moreover have "map_of locations city = Some (lat, lon)"
    using locations_keys_distinct assms(2) by (simp add: dict_keys_def)
  ultimately have "place_on_map location i = Inr (lat, lon)"
    using assms(1) by (simp add: place_on_map_unknown dict_lookup_def)
  then show ?thesis ..
qed

text \<open>
  Claim C5. The map-placement step never raises and always yields a coordinate pair of the
  20-city table: for a location that is a key of the table, the pair stored under it; for any
  other location (such as \<^verbatim>\<open>Nowhereville\<close>) the pair of the randomly chosen key, and every
  entry of the table can be chosen. The loop over the rows therefore always completes, with
  one point per shipment, each at a coordinate of the table. (That the choice is uniform is a
  property of the generator's distribution, which the model does not represent.)
\<close>

theorem map_placement_in_table:
  "length locations = 20
   \<and> (\<exists>city lat lon. place_on_map location r = Inr (lat, lon) \<and> (city, lat, lon) \<in> set locations)
   \<and> (dict_has locations location \<longrightarrow>
        place_on_map location r = dict_lookup locations location)
   \<and> (\<not> dict_has locations location \<longrightarrow>
        place_on_map location r = dict_lookup locations (dict_keys locations ! (r mod 20))
        \<and> (\<forall>entry \<in> set locations. \<exists>r'. place_on_map location r' = Inr (snd entry)))
   \<and> (\<exists>points. map_data rnd n rows = Inr points \<and> length points = length rows
        \<and> (\<forall>p \<in> set points. \<exists>city. (city, m_lat p, m_lon p) \<in> set locations))"
proof -
  have "\<exists>city lat lon. place_on_map location r = Inr (lat, lon) \<and> (city, lat, lon) \<in> set locations"
    using place_on_map_in_table [of location r] by blast
  moreover have "\<forall>entry \<in> set locations. \<exists>r'. place_on_map location r' = Inr (snd entry)"
    if "\<not> dict_has locations location"
  proof
    fix entry assume "entry \<in> set locations"
    then have "(fst entry, fst (snd entry), snd (snd entry)) \<in> set locations" by simp
    from place_on_map_reaches [OF that this] show "\<exists>r'. place_on_map location r' = Inr (snd entry)"
      by simp
  qed
  ultimately show ?thesis
    using locations_length place_on_map_known [of location r] place_on_map_unknown [of location r]
      map_data_total [of rnd n rows]
    by blast
qed

theorem map_placement_in_table_witness:
  "\<not> dict_has locations ''Nowhereville'' \<and> dict_has locations ''Boston''
   \<and> place_on_map ''Nowhereville'' 42 = Inr (41.8781, - 87.6298)
   \<and> place_on_map ''Boston'' 42 = Inr (42.3601, - 71.0589)
   \<and> (\<exists>points. map_data steady_draws 0 [lost_shipment, boston_shipment] = Inr points
        \<and> length points = 2)"
proof -
  note nowhere = map_placement_in_table
    [of "''Nowhereville''" 42 steady_draws 0 "[lost_shipment, boston_shipment]"]
  note boston = map_placement_in_table
    [of "''Boston''" 42 steady_draws 0 "[lost_shipment, boston_shipment]"]
  have known: "\<not> dict_has locations ''Nowhereville''" "dict_has locations ''Boston''"
    by (simp_all add: dict_has_def dict_keys_def locations_def)
  have chicago: "dict_lookup locations (dict_keys locations ! (42 mod 20)) = Inr (41.8781, - 87.6298)"
    by (simp add: dict_keys_def dict_lookup_def locations_def)
  have "place_on_map ''Nowhereville'' 42 = dict_lookup locations (dict_keys locations ! (42 mod 20))"
    using nowhere known(1) by blast
  then have p1: "place_on_map ''Nowhereville'' 42 = Inr (41.8781, - 87.6298)"
    by (simp only: chicago)
  have there: "dict_lookup locations ''Boston'' = Inr (42.3601, - 71.0589)"
    by (simp add: dict_lookup_def locations_def)
  have "place_on_map ''Boston'' 42 = dict_lookup locations ''Boston''"
    using boston known(2) by blast
  then have p2: "place_on_map ''Boston'' 42 = Inr (42.3601, - 71.0589)"
    by (simp only: there)
  have two: "length [lost_shipment, boston_shipment] = 2"
    by simp
  have "\<exists>points. map_data steady_draws 0 [lost_shipment, boston_shipment] = Inr points
      \<and> length points = length [lost_shipment, boston_shipment]"
    using boston by blast
  then have "\<exists>points. map_data steady_draws 0 [lost_shipment, boston_shipment] = Inr points
      \<and> length points = 2"
    by (simp only: two)
  with known p1 p2 show ?thesis by blast
qed

section \<open>Properties of the synthetic trends\<close>

lemma float_add_not_NaN: "a \<noteq> NaN \<Longrightarrow> float_add fl a x \<noteq> NaN"
  by (cases a) (simp_all add: float_add_def to_float_def)

lemma py_clamp:
  assumes "lo \<le> hi" and "y \<noteq> NaN"
  shows "in_bounds lo hi (py_max (py_min y (Finite hi)) (Finite lo))"
  using assms by (cases y) (simp_all add: in_bounds_def py_min_def py_max_def)

lemma py_clamp_set:
  assumes "lo \<le> hi" and "a \<noteq> NaN"
  shows "\<forall>x \<in> set (map (\<lambda>i. py_max (py_min (float_add fl a (f i)) (Finite hi)) (Finite lo)) is).
           in_bounds lo hi x"
  using py_clamp [OF assms(1) float_add_not_NaN [OF assms(2)]] by simp

text \<open>
  Claim C6, as amended. Each of the three synthetic series has 30 points. For every base
  value other than NaN and every sequence of noise draws, every point lies within its bounds:
  efficiency in [50, 100], customer rating in [1, 5], on-time percentage in [70, 100]. The
  base value is the KPI as the float that the addition makes of it; the bounds hold for every
  rounding \<open>fl\<close> of the sums.
\<close>

theorem trend_series_bounded:
  "length (efficiency_data fl base_efficiency normal) = 30
   \<and> (base_efficiency \<noteq> NaN \<longrightarrow>
        (\<forall>x \<in> set (efficiency_data fl base_efficiency normal). in_bounds 50 100 x))
   \<and> length (rating_data fl base_rating normal) = 30
   \<and> (base_rating \<noteq> NaN \<longrightarrow>
        (\<forall>x \<in> set (rating_data fl base_rating normal). in_bounds 1 5 x))
   \<and> length (ontime_data fl base_ontime normal) = 30
   \<and> (base_ontime \<noteq> NaN \<longrightarrow>
        (\<forall>x \<in> set (ontime_data fl base_ontime normal). in_bounds 70 100 x))"
proof -
  have e: "base_efficiency \<noteq> NaN \<Longrightarrow>
      \<forall>x \<in> set (efficiency_data fl base_efficiency normal). in_bounds 50 100 x"
    unfolding efficiency_data_def
    by (rule py_clamp_set [of 50 100 base_efficiency fl normal "[0..<30]"]) simp_all
  have r: "base_rating \<noteq> NaN \<Longrightarrow>
      \<forall>x \<in> set (rating_data fl base_rating normal). in_bounds 1 5 x"
    unfolding rating_data_def
    by (rule py_clamp_set [of 1 5 base_rating fl "\<lambda>i. normal (30 + i)" "[0..<30]"]) simp_all
  have t: "base_ontime \<noteq> NaN \<Longrightarrow>
      \<forall>x \<in> set (ontime_data fl base_ontime normal). in_bounds 70 100 x"
    unfolding ontime_data_def
    by (rule py_clamp_set [of 70 100 base_ontime fl "\<lambda>i. normal (60 + i)" "[0..<30]"]) simp_all
  have len: "length (efficiency_data fl base_efficiency normal) = 30"
      "length (rating_data fl base_rating normal) = 30"
      "length (ontime_data fl base_ontime normal) = 30"
    by (simp_all add: efficiency_data_def rating_data_def ontime_data_def)
  from e r t len show ?thesis by blast
qed

theorem trend_series_bounded_witness:
  "Finite 75 \<noteq> NaN
   \<and> efficiency_data (\<lambda>x. x) (Finite 75) wild_noise ! 0 = Finite 100
   \<and> efficiency_data (\<lambda>x. x) (Finite 75) wild_noise ! 1 = Finite 50
   \<and> in_bounds 50 100 (efficiency_data (\<lambda>x. x) (Finite 75) wild_noise ! 0)
   \<and> in_bounds 50 100 (efficiency_data (\<lambda>x. x) (Finite 75) wild_noise ! 1)
   \<and> in_bounds 1 5 (rating_data (\<lambda>x. x) (Finite 4) wild_noise ! 0)
   \<and> in_bounds 70 100 (ontime_data (\<lambda>x. x) (Finite 85) wild_noise ! 1)"
proof -
  note bounded = trend_series_bounded [of "\<lambda>x. x" "Finite 75" wild_noise "Finite 4" "Finite 85"]
  have big: "\<not> float_overflow \<le> 1075" "\<not> 1075 \<le> - float_overflow"
      "\<not> float_overflow \<le> - 925" "\<not> - 925 \<le> - float_overflow"
    by (simp_all add: float_overflow_def)
  have e0: "efficiency_data (\<lambda>x. x) (Finite 75) wild_noise ! 0 = Finite 100"
    and e1: "efficiency_data (\<lambda>x. x) (Finite 75) wild_noise ! 1 = Finite 50"
    by (simp_all add: efficiency_data_def wild_noise_def float_add_def to_float_def big
        py_min_def py_max_def)
  have "efficiency_data (\<lambda>x. x) (Finite 75) wild_noise ! 0
      \<in> set (efficiency_data (\<lambda>x. x) (Finite 75) wild_noise)"
    "efficiency_data (\<lambda>x. x) (Finite 75) wild_noise ! 1
      \<in> set (efficiency_data (\<lambda>x. x) (Finite 75) wild_noise)"
    "rating_data (\<lambda>x. x) (Finite 4) wild_noise ! 0
      \<in> set (rating_data (\<lambda>x. x) (Finite 4) wild_noise)"
    "ontime_data (\<lambda>x. x) (Finite 85) wild_noise ! 1
      \<in> set (ontime_data (\<lambda>x. x) (Finite 85) wild_noise)"
    using bounded by (simp_all only: nth_mem)
  with bounded e0 e1 show ?thesis
    by simp
qed

text \<open>
  Claim C6 as stated fails for the base value NaN, which the KPI payload can hold: NaN plus
  any noise is NaN, every comparison with NaN is false, so \<^verbatim>\<open>min\<close> and \<^verbatim>\<open>max\<close> return their
  first argument and all 30 points are NaN, which lies within no bounds.
\<close>

theorem trend_series_nan_counterexample:
  "efficiency_data (\<lambda>x. x) NaN quiet_noise = replicate 30 NaN
   \<and> rating_data (\<lambda>x. x) NaN quiet_noise = replicate 30 NaN
   \<and> ontime_data (\<lambda>x. x) NaN quiet_noise = replicate 30 NaN
   \<and> \<not> in_bounds 50 100 NaN \<and> \<not> in_bounds 1 5 NaN \<and> \<not> in_bounds 70 100 NaN"
  by (simp add: efficiency_data_def rating_data_def ontime_data_def float_add_def py_min_def
      py_max_def in_bounds_def map_replicate_const)

section \<open>Properties of the drop-down labels\<close>

lemma digit_value_digit_char: "d < 10 \<Longrightarrow> digit_value (digit_char d) = Some d"
proof -
  assume "d < 10"
  then have "d \<in> {0, 1, 2, 3, 4, 5, 6, 7, 8, 9}" by auto
  then show ?thesis
    by (auto simp: digit_value_def digit_char_def)
qed

lemma all_digits_str_nat: "all_digits (str_nat n)"
proof (induction n rule: str_nat.induct)
  case (1 n)
  show ?case
  proof (cases "n < 10")
    case True
    then show ?thesis
      using digit_value_digit_char [of n] by (subst str_nat.simps) (simp add: all_digits_def)
  next
    case False
    then have "all_digits (str_nat (n div 10))" using 1 by simp
    moreover have "digit_value (digit_char (n mod 10)) \<noteq> None"
      using digit_value_digit_char [of "n mod 10"] by simp
    ultimately show ?thesis
      using False by (subst str_nat.simps) (simp add: all_digits_def)
  qed
qed

lemma str_nat_nonempty: "str_nat n \<noteq> []"
  by (subst str_nat.simps) simp

lemma digits_value_append:
  "all_digits xs \<Longrightarrow> digits_value (xs @ ys) acc = (case digits_value xs acc of None \<Rightarrow> None | Some a \<Rightarrow> digits_value ys a)"
  by (induction xs arbitrary: acc) (auto simp: all_digits_def split: option.splits)

lemma digits_value_str_nat: "digits_value (str_nat n) 0 = Some n"
proof (induction n rule: str_nat.induct)
  case (1 n)
  show ?case
  proof (cases "n < 10")
    case True
    then show ?thesis
      using digit_value_digit_char [of n] by (subst str_nat.simps) simp
  next
    case False
    then have ih: "digits_value (str_nat (n div 10)) 0 = Some (n div 10)" using 1 by simp
    have d: "digit_value (digit_char (n mod 10)) = Some (n mod 10)"
      using digit_value_digit_char [of "n mod 10"] by simp
    have "digits_value (str_nat (n div 10) @ [digit_char (n mod 10)]) 0 = Some n"
      using all_digits_str_nat [of "n div 10"] ih d by (simp add: digits_value_append)
    then show ?thesis using False by (subst str_nat.simps) simp
  qed
qed

lemma hd_str_nat_digit: "digit_value (hd (str_nat n)) \<noteq> None"
  using all_digits_str_nat [of n] str_nat_nonempty [of n]
  by (cases "str_nat n") (auto simp: all_digits_def)

lemma last_str_nat_digit: "digit_value (last (str_nat n)) \<noteq> None"
  using all_digits_str_nat [of n] str_nat_nonempty [of n] last_in_set [of "str_nat n"]
  by (auto simp: all_digits_def)

lemma unsigned_value_str_nat: "unsigned_value (str_nat n) = Some n"
  by (simp add: unsigned_value_def str_nat_nonempty hd_str_nat_digit digits_value_str_nat)

lemma py_strip_id:
  "s \<noteq> [] \<Longrightarrow> hd s \<notin> set chars \<Longrightarrow> last s \<notin> set chars \<Longrightarrow> py_strip s chars = s"
proof -
  assume a: "s \<noteq> []" "hd s \<notin> set chars" "last s \<notin> set chars"
  then have "dropWhile (\<lambda>c. c \<in> set chars) s = s" by (cases s) auto
  moreover have "dropWhile (\<lambda>c. c \<in> set chars) (rev s) = rev s"
    using a by (cases "rev s") (auto simp: last_rev [symmetric] simp del: last_rev hd_rev)
  ultimately show ?thesis by (simp add: py_strip_def)
qed

lemma digit_not_special:
  "digit_value c \<noteq> None \<Longrightarrow> c \<notin> set whitespace \<and> c \<noteq> CHR ''-'' \<and> c \<noteq> CHR ''+'' \<and> c \<noteq> CHR '')'' \<and> c \<noteq> CHR ''I''"
  by (auto simp: digit_value_def whitespace_def split: if_splits)

lemma py_int_str_int: "py_int (str_int i) = Inr i"
proof (cases "i < 0")
  case True
  let ?d = "str_nat (nat (- i))"
  have s: "str_int i = CHR ''-'' # ?d" using True by (simp add: str_int_def)
  have "last (CHR ''-'' # ?d) = last ?d" using str_nat_nonempty by simp
  then have "last (CHR ''-'' # ?d) \<notin> set whitespace"
    using last_str_nat_digit [of "nat (- i)"] digit_not_special by metis
  moreover have "CHR ''-'' \<notin> set whitespace" by (simp add: whitespace_def)
  ultimately have "py_strip (CHR ''-'' # ?d) whitespace = CHR ''-'' # ?d"
    by (intro py_strip_id) simp_all
  then show ?thesis
    using True by (simp add: py_int_def s unsigned_value_str_nat)
next
  case False
  let ?d = "str_nat (nat i)"
  have s: "str_int i = ?d" using False by (simp add: str_int_def)
  have h: "hd ?d \<notin> set whitespace \<and> hd ?d \<noteq> CHR ''-'' \<and> hd ?d \<noteq> CHR ''+''"
    using hd_str_nat_digit [of "nat i"] digit_not_special by blast
  have "last ?d \<notin> set whitespace"
    using last_str_nat_digit [of "nat i"] digit_not_special by blast
  with h have "py_strip ?d whitespace = ?d"
    using str_nat_nonempty by (intro py_strip_id) simp_all
  then show ?thesis
    using False h by (simp add: py_int_def s unsigned_value_str_nat Let_def)
qed

lemma str_int_shape:
  "str_int i \<noteq> [] \<and> hd (str_int i) \<noteq> CHR '')'' \<and> last (str_int i) \<noteq> CHR '')''
   \<and> CHR ''I'' \<notin> set (str_int i)"
proof -
  have d: "\<And>n. CHR ''I'' \<notin> set (str_nat n)"
    using all_digits_str_nat digit_not_special unfolding all_digits_def by blast
  have l: "\<And>n. last (str_nat n) \<noteq> CHR '')''"
    using last_str_nat_digit digit_not_special by blast
  have h: "\<And>n. hd (str_nat n) \<noteq> CHR '')''"
    using hd_str_nat_digit digit_not_special by blast
  show ?thesis
    using d l h str_nat_nonempty by (simp add: str_int_def)
qed

lemma py_split_from_no_I:
  "CHR ''I'' \<notin> set s \<Longrightarrow> py_split_from ''ID: '' cur s = [cur @ s]"
proof (induction s arbitrary: cur)
  case Nil
  show ?case by (subst py_split_from.simps) simp
next
  case (Cons c s)
  then have "\<not> starts_with (c # s) ''ID: ''" by auto
  then show ?case using Cons by (subst py_split_from.simps) simp
qed

lemma starts_with_boundary:
  assumes h: "starts_with (name @ '' (ID: '' @ rest) ''ID: ''"
  shows "starts_with (name @ '' '') ''ID: ''"
proof (cases name)
  case Nil
  with h show ?thesis by simp
next
  case (Cons a n1)
  note c1 = this
  show ?thesis
  proof (cases n1)
    case Nil
    with c1 h show ?thesis by simp
  next
    case (Cons b n2)
    note c2 = this
    show ?thesis
    proof (cases n2)
      case Nil
      with c1 c2 h show ?thesis by simp
    next
      case (Cons c n3)
      with c1 c2 h show ?thesis by (cases n3) simp_all
    qed
  qed
qed

lemma py_split_from_step:
  "sep \<noteq> [] \<Longrightarrow> \<not> starts_with (c # s) sep \<Longrightarrow>
     py_split_from sep cur (c # s) = py_split_from sep (cur @ [c]) s"
  by (subst py_split_from.simps) simp

lemma py_split_from_match:
  "sep \<noteq> [] \<Longrightarrow> starts_with (c # s) sep \<Longrightarrow>
     py_split_from sep cur (c # s) = cur # py_split_from sep [] (drop (length sep) (c # s))"
  by (subst py_split_from.simps) simp

lemma py_split_from_label:
  "\<not> contains (name @ '' '') ''ID: '' \<Longrightarrow>
     py_split_from ''ID: '' cur (name @ '' (ID: '' @ rest) =
       (cur @ name @ '' ('') # py_split_from ''ID: '' [] rest"
proof (induction name arbitrary: cur)
  case Nil
  show ?case
    by (simp add: py_split_from_step py_split_from_match)
next
  case (Cons c name)
  from Cons.prems have a: "\<not> starts_with ((c # name) @ '' '') ''ID: ''"
    and b: "\<not> contains (name @ '' '') ''ID: ''" by simp_all
  from a have "\<not> starts_with ((c # name) @ '' (ID: '' @ rest) ''ID: ''"
    using starts_with_boundary by blast
  then have "\<not> starts_with (c # (name @ '' (ID: '' @ rest)) ''ID: ''"
    by simp
  then have "py_split_from ''ID: '' cur (c # (name @ '' (ID: '' @ rest)) =
      py_split_from ''ID: '' (cur @ [c]) (name @ '' (ID: '' @ rest)"
    by (intro py_split_from_step) simp_all
  then show ?case using Cons.IH [OF b, of "cur @ [c]"] by simp
qed

lemma starts_with_append: "starts_with a p \<Longrightarrow> starts_with (a @ b) p"
  by (induction a p rule: starts_with.induct) auto

lemma ends_with_Cons: "ends_with s p \<Longrightarrow> ends_with (c # s) p"
  by (simp add: ends_with_def starts_with_append)

lemma starts_with_space_boundary:
  assumes h: "starts_with (name @ '' '') ''ID: ''"
  shows "starts_with name ''ID: '' \<or> name = ''ID:''"
proof (cases name)
  case Nil
  with h show ?thesis by simp
next
  case (Cons a n1)
  note c1 = this
  show ?thesis
  proof (cases n1)
    case Nil
    with c1 h show ?thesis by simp
  next
    case (Cons b n2)
    note c2 = this
    show ?thesis
    proof (cases n2)
      case Nil
      with c1 c2 h show ?thesis by simp
    next
      case (Cons c n3)
      with c1 c2 h show ?thesis by (cases n3) simp_all
    qed
  qed
qed

lemma contains_starts_with: "starts_with s p \<Longrightarrow> contains s p"
  by (cases s; cases p) simp_all

lemma no_boundary_occurrence:
  "\<not> contains name ''ID: '' \<Longrightarrow> \<not> ends_with name ''ID:'' \<Longrightarrow> \<not> contains (name @ '' '') ''ID: ''"
proof (induction name)
  case Nil
  show ?case by simp
next
  case (Cons c name)
  have "\<not> contains name ''ID: ''" using Cons.prems(1) by simp
  moreover have "\<not> ends_with name ''ID:''" using Cons.prems(2) ends_with_Cons by blast
  ultimately have ih: "\<not> contains (name @ '' '') ''ID: ''" by (rule Cons.IH)
  have "\<not> starts_with ((c # name) @ '' '') ''ID: ''"
  proof
    assume "starts_with ((c # name) @ '' '') ''ID: ''"
    then have "starts_with (c # name) ''ID: '' \<or> c # name = ''ID:''"
      by (rule starts_with_space_boundary)
    then show False
    proof
      assume "starts_with (c # name) ''ID: ''"
      then have "contains (c # name) ''ID: ''" by (rule contains_starts_with)
      with Cons.prems(1) show False by blast
    next
      assume "c # name = ''ID:''"
      then have "ends_with (c # name) ''ID:''" by (simp add: ends_with_def)
      with Cons.prems(2) show False by blast
    qed
  qed
  with ih show ?case by simp
qed

lemma py_strip_paren:
  assumes "s \<noteq> []" "hd s \<noteq> CHR '')''" "last s \<noteq> CHR '')''"
  shows "py_strip (s @ '')'') '')'' = s"
proof -
  have "dropWhile (\<lambda>c. c \<in> set '')'') (s @ '')'') = s @ '')''"
    using assms by (cases s) auto
  moreover have "dropWhile (\<lambda>c. c \<in> set '')'') (rev s) = rev s"
    using assms by (cases "rev s") (auto simp: last_rev [symmetric] simp del: last_rev hd_rev)
  ultimately show ?thesis by (simp add: py_strip_def)
qed

lemma str_int_5: "str_int 5 = ''5''"
  by (simp add: str_int_def str_nat.simps digit_char_def)

text \<open>
  Claim C10, as amended. For every record whose Name neither contains \<^verbatim>\<open>ID: \<close> nor ends
  with \<^verbatim>\<open>ID:\<close>, and every integer id (negative ones included), reading the id back from the
  label \<^verbatim>\<open>{Name} (ID: {id})\<close> with \<^verbatim>\<open>split("ID: ")[1].strip(")")\<close> and \<^verbatim>\<open>int\<close> gives the
  original id.
\<close>

theorem option_id_roundtrip:
  assumes "\<not> contains name ''ID: ''" and "\<not> ends_with name ''ID:''"
  shows "option_id (option_label name ident) = Inr ident"
proof -
  have "\<not> contains (name @ '' '') ''ID: ''"
    using assms by (rule no_boundary_occurrence)
  then have "py_split_from ''ID: '' [] (name @ '' (ID: '' @ (str_int ident @ '')'')) =
      ([] @ name @ '' ('') # py_split_from ''ID: '' [] (str_int ident @ '')'')"
    by (rule py_split_from_label)
  moreover have "py_split_from ''ID: '' [] (str_int ident @ '')'') = [[] @ str_int ident @ '')'']"
    using str_int_shape [of ident] by (intro py_split_from_no_I) simp
  ultimately have "py_split (option_label name ident) ''ID: '' =
      Inr [name @ '' ('', str_int ident @ '')'']"
    by (simp add: py_split_def option_label_def)
  moreover have "py_strip (str_int ident @ '')'') '')'' = str_int ident"
    using str_int_shape [of ident] by (intro py_strip_paren) simp_all
  ultimately show ?thesis
    by (simp add: option_id_def py_int_str_int)
qed

theorem option_id_roundtrip_witness:
  "\<not> contains ''John Doe'' ''ID: '' \<and> \<not> ends_with ''John Doe'' ''ID:''
   \<and> option_label ''John Doe'' 12 = ''John Doe (ID: 12)''
   \<and> option_id ''John Doe (ID: 12)'' = Inr 12"
  using option_id_roundtrip [of "''John Doe''" 12]
  by (simp add: ends_with_def option_label_def str_int_12)

text \<open>
  Claim C10 as stated fails for a Name that ends with \<^verbatim>\<open>ID:\<close>: it does not contain
  \<^verbatim>\<open>ID: \<close>, but the space that the label puts after the Name completes an occurrence, the
  split yields the piece \<^verbatim>\<open>(\<close> at index 1, and \<^verbatim>\<open>int\<close> raises \<^verbatim>\<open>ValueError\<close>.
\<close>

theorem option_id_boundary_counterexample:
  "\<not> contains ''ID:'' ''ID: '' \<and> option_label ''ID:'' 5 = ''ID: (ID: 5)''
   \<and> py_split ''ID: (ID: 5)'' ''ID: '' = Inr [[], ''('', ''5)'']
   \<and> option_id (option_label ''ID:'' 5) = Inl ValueError"
  by (simp add: option_label_def str_int_5 option_id_def py_split_def py_split_from_step
      py_split_from_match py_split_from.simps [of _ _ "[]"] py_strip_def py_int_def
      unsigned_value_def digit_value_def whitespace_def)

section \<open>Properties of the customer filters\<close>

lemma boolean_index_filter: "boolean_index df (map P df) = filter P df"
  by (induction df) (auto simp: boolean_index_def)

lemma lower_char_dot: "c \<notin> set regex_special \<Longrightarrow> c \<noteq> CHR ''.''"
  by (auto simp: regex_special_def)

lemma match_here_literal:
  "literal_pattern pat \<Longrightarrow> match_here pat s = starts_with (lower s) (lower pat)"
proof (induction pat s rule: match_here.induct)
  case (1 s)
  show ?case by (simp add: lower_def)
next
  case (2 p ps)
  show ?case by (simp add: lower_def)
next
  case (3 p ps c s)
  then have "p \<noteq> CHR ''.''" and "literal_pattern ps"
    using lower_char_dot by (auto simp: literal_pattern_def)
  with 3 show ?case by (auto simp: lower_def char_match_def)
qed

lemma starts_with_Nil: "starts_with [] p \<longleftrightarrow> p = []"
  by (cases p) simp_all

lemma re_search_literal:
  "literal_pattern pat \<Longrightarrow> re_search pat s = contains (lower s) (lower pat)"
proof (induction s)
  case Nil
  then show ?case by (simp add: match_here_literal lower_def starts_with_Nil)
next
  case (Cons c s)
  then show ?case by (simp add: match_here_literal lower_def)
qed

text \<open>
  Where the code and the specification agree: for a name filter text without
  regular-expression special characters, the name filter keeps exactly the customers whose
  Name contains the text as a case-insensitive substring; a type filter other than
  \<^verbatim>\<open>All\<close> keeps exactly the customers whose Type equals it; both filters together keep the
  customers that pass both; and \<^verbatim>\<open>All\<close> with an empty name filter returns the fetched rows
  unchanged.
\<close>

lemma filter_customers_on_literal_text:
  assumes "literal_pattern filter_name"
  shows "filter_customers lib filter_name filter_type customers =
           Inr (filter (\<lambda>c. ci_substring filter_name (c_Name c)
                           \<and> (filter_type = ''All'' \<or> c_Type c = filter_type)) customers)"
proof -
  have dot: "dot_pattern filter_name"
    using assms by (auto simp: literal_pattern_def dot_pattern_def)
  have empty: "ci_substring [] s" for s
    by (cases "lower s") (simp_all add: ci_substring_def lower_def)
  have name: "re_search filter_name s = ci_substring filter_name s" for s
    using assms by (simp add: re_search_literal ci_substring_def)
  show ?thesis
  proof (cases "filter_name = []")
    case True
    then show ?thesis
      using empty by (simp add: filter_customers_def boolean_index_filter)
  next
    case False
    then show ?thesis
      using dot
      by (simp add: filter_customers_def str_contains_def re_compile_def name
          boolean_index_filter comp_def)
  qed
qed

lemma filter_customers_examples:
  "filter_customers lib ''jo'' ''All'' [john_doe, jane] = Inr [john_doe]
   \<and> filter_customers lib [] ''Business'' [john_doe, jane] = Inr [jane]
   \<and> filter_customers lib [] ''All'' [john_doe, jane] = Inr [john_doe, jane]"
  by (simp add: filter_customers_def str_contains_def re_compile_def dot_pattern_def
      regex_special_def boolean_index_def char_match_def john_doe_def jane_def lower_char_def
      capital_letters_def small_letters_def)

text \<open>
  Claim C4 says that the name filter keeps exactly the customers whose Name contains the
  filter text as a case-insensitive substring. The code does not: it hands the text to
  \<^verbatim>\<open>str.contains\<close> as a regular expression. For the filter text \<^verbatim>\<open>j.h\<close>, type \<^verbatim>\<open>All\<close> and the
  customers John Doe and Jane, the code keeps John Doe, whatever the regular-expression
  library does on other patterns, because the dot is read as a wildcard; \<^verbatim>\<open>j.h\<close> is a
  substring of neither name in any letter case, so the claim's filter keeps no customer.
\<close>

theorem filter_customers_wildcard:
  "filter_customers lib ''j.h'' ''All'' [john_doe, jane] = Inr [john_doe]
   \<and> \<not> ci_substring ''j.h'' (c_Name john_doe)
   \<and> filter (\<lambda>c. ci_substring ''j.h'' (c_Name c)) [john_doe, jane] = []"
  by (simp add: filter_customers_def str_contains_def re_compile_def dot_pattern_def
      regex_special_def boolean_index_def char_match_def ci_substring_def john_doe_def
      jane_def lower_def lower_char_def capital_letters_def small_letters_def)

section \<open>Properties of the whole run\<close>


















end
